theory Spec2Isabelle
  imports Complex_Main "HOL-Library.Multiset"
begin

section \<open>The dashboard of the test-run front end (frontend/app/dashboard/page.tsx)\<close>

text \<open>
  The page is one React component. Its state cells become the fields of a record, its
  event handlers become functions from the state to the new state together with the
  requests the handler issues, and the values the component derives on every render
  (\<open>stats\<close>, \<open>allBugs\<close>, \<open>sortedBugs\<close>) become functions of the fetched snapshot.

  Conventions of the embedding:
  \<^item> \<open>null\<close> and \<open>undefined\<close> are \<open>None\<close>. A field the code reads through \<open>?.\<close> or guards
    with \<open>||\<close> is an \<open>option\<close> even where the interface declares it required, so every
    guard of the source is a branch of the model.
  \<^item> counts (array lengths and their sums) are natural numbers.
  \<^item> a quality score is a rational number: sums, quotients and \<open>Math.round\<close> are
    exact here, whereas the engine computes them on binary doubles. No general
    statement below depends on the value of an average; the one average that is
    evaluated (the sample snapshot, 5.3) is the same on doubles.
\<close>

subsection \<open>Data model\<close>

record agent =
  agent_id :: string
  agent_name :: string
  agent_role :: string
  agent_color :: string

definition AGENTS :: "agent list" where
  "AGENTS =
    [\<lparr>agent_id = ''jake'', agent_name = ''Jake'', agent_role = ''Performance'', agent_color = ''bg-orange-500''\<rparr>,
     \<lparr>agent_id = ''grandma'', agent_name = ''Rose'', agent_role = ''Accessibility'', agent_color = ''bg-pink-500''\<rparr>,
     \<lparr>agent_id = ''alex'', agent_name = ''Alex'', agent_role = ''Security'', agent_color = ''bg-red-500''\<rparr>,
     \<lparr>agent_id = ''priya'', agent_name = ''Priya'', agent_role = ''QA'', agent_color = ''bg-blue-500''\<rparr>,
     \<lparr>agent_id = ''marcus'', agent_name = ''Marcus'', agent_role = ''Mobile'', agent_color = ''bg-purple-500''\<rparr>]"

record bug =
  title :: string
  severity :: string
  description :: string
  impact :: "string option"
  recommendation :: "string option"
  found_by :: "string option"

text \<open>
  A frame of the event stream, as \<open>JSON.parse\<close> returns it. The interface declares the
  field \<open>type\<close> a string, but nothing checks the frame against the interface: the field
  is \<open>None\<close> when the parsed value has no \<open>type\<close> that is a string (the field is absent or
  \<open>null\<close>, or the value is a number, a string, a boolean or an array).
\<close>

record update =
  update_type :: "string option"
  update_persona :: "string option"
  thought :: "string option"
  phase :: "string option"
  update_bug :: "bug option"
  bugs_count :: "nat option"
  update_quality_score :: "rat option"
  message :: "string option"

record agent_result =
  persona :: string
  agent_status :: string
  bugs_found :: "bug list option"
  quality_score :: "rat option"
  agent_summary :: string

record aggregate =
  total_bugs :: nat
  critical :: nat
  high :: nat
  medium :: nat
  low :: nat
  avg_score :: rat

record test_results =
  test_id :: int
  test_url :: string
  status :: string
  summary :: "aggregate option"
  results :: "agent_result list option"

record usage_record =
  tests_used :: int
  tests_limit :: int
  tests_remaining :: int
  beta_active :: bool
  beta_ends :: string

datatype tab = Overview | Bugs

record dashboard =
  user :: "string option"
  url :: string
  selectedAgents :: "string list"
  isRunning :: bool
  isCancelling :: bool
  testId :: "int option"
  updates :: "update list"
  fetched :: "test_results option"
  error :: string
  activeTab :: tab
  usage :: "usage_record option"

subsection \<open>The fallback aggregate: \<open>stats\<close>\<close>

text \<open>
  \<open>r.bugs_found?.length || 0\<close> and \<open>r.bugs_found?.filter(p).length || 0\<close>: an absent list
  counts as zero.
\<close>

definition bugs_length :: "agent_result \<Rightarrow> nat" where
  "bugs_length r = (case bugs_found r of None \<Rightarrow> 0 | Some bs \<Rightarrow> length bs)"

definition severity_length :: "string \<Rightarrow> agent_result \<Rightarrow> nat" where
  "severity_length s r =
     (case bugs_found r of None \<Rightarrow> 0 | Some bs \<Rightarrow> length (filter (\<lambda>b. severity b = s) bs))"

text \<open>\<open>r.quality_score || 0\<close>: a missing score, and the score 0 itself, contribute 0.\<close>

definition score_or_zero :: "agent_result \<Rightarrow> rat" where
  "score_or_zero r = (case quality_score r of None \<Rightarrow> 0 | Some q \<Rightarrow> q)"

text \<open>\<open>Math.round(x)\<close> is the integer \<open>\<lfloor>x + 1/2\<rfloor>\<close>: ties go towards plus infinity.\<close>

definition Math_round :: "rat \<Rightarrow> rat" where
  "Math_round x = of_int \<lfloor>x + 1 / 2\<rfloor>"

definition computed_stats :: "agent_result list \<Rightarrow> aggregate" where
  "computed_stats rs =
     \<lparr>total_bugs = foldl (\<lambda>a r. a + bugs_length r) 0 rs,
      critical = foldl (\<lambda>a r. a + severity_length ''critical'' r) 0 rs,
      high = foldl (\<lambda>a r. a + severity_length ''high'' r) 0 rs,
      medium = foldl (\<lambda>a r. a + severity_length ''medium'' r) 0 rs,
      low = foldl (\<lambda>a r. a + severity_length ''low'' r) 0 rs,
      avg_score =
        (if length rs \<noteq> 0
         then Math_round (foldl (\<lambda>a r. a + score_or_zero r) 0 rs / of_nat (length rs) * 10) / 10
         else 0)\<rparr>"

text \<open>
  \<open>results?.summary || (results?.results ? {...} : null)\<close>: the server's summary wins when
  the snapshot carries one; otherwise the aggregate is computed from the per-agent
  results, and there is none when the snapshot has no result list.
\<close>

definition stats :: "test_results option \<Rightarrow> aggregate option" where
  "stats res =
     (case res of
        None \<Rightarrow> None
      | Some t \<Rightarrow>
          (case summary t of
             Some s \<Rightarrow> Some s
           | None \<Rightarrow>
               (case results t of
                  None \<Rightarrow> None
                | Some rs \<Rightarrow> Some (computed_stats rs))))"

subsection \<open>\<open>allBugs\<close> and \<open>sortedBugs\<close>\<close>

text \<open>
  \<open>{ ...b, agent: r.persona }\<close> extends the bug by one field, which is what a record
  extension is. \<open>results?.results?.flatMap(...) || []\<close>: no snapshot, or a snapshot
  without a result list, gives the empty list.
\<close>

record listed_bug = bug +
  agent :: string

definition with_agent :: "string \<Rightarrow> bug \<Rightarrow> listed_bug" where
  "with_agent p b = bug.extend b (listed_bug.fields p)"

definition allBugs :: "test_results option \<Rightarrow> listed_bug list" where
  "allBugs res =
     (case res of
        None \<Rightarrow> []
      | Some t \<Rightarrow>
          (case results t of
             None \<Rightarrow> []
           | Some rs \<Rightarrow>
               concat (map (\<lambda>r. map (with_agent (persona r))
                                   (case bugs_found r of None \<Rightarrow> [] | Some bs \<Rightarrow> bs)) rs)))"

text \<open>
  The comparator reads \<open>order[a.severity] ?? 4\<close>, where \<open>order\<close> is the object literal
  \<open>{ critical: 0, high: 1, medium: 2, low: 3 }\<close>. A property read on an object literal
  first looks at the four own properties and then at the prototype, \<open>Object.prototype\<close>,
  whose properties are functions (and, for \<open>__proto__\<close>, an object). Only a key found in
  neither place reads as \<open>undefined\<close>, and only \<open>undefined\<close> is replaced by 4.
\<close>

datatype js_value = JSNumber int | JSObject

definition Object_prototype_keys :: "string list" where
  "Object_prototype_keys =
     [''constructor'', ''hasOwnProperty'', ''isPrototypeOf'', ''propertyIsEnumerable'',
      ''toLocaleString'', ''toString'', ''valueOf'', ''__proto__'',
      ''__defineGetter__'', ''__defineSetter__'', ''__lookupGetter__'', ''__lookupSetter__'']"

definition order :: "string \<Rightarrow> js_value option" where
  "order k =
     (if k = ''critical'' then Some (JSNumber 0)
      else if k = ''high'' then Some (JSNumber 1)
      else if k = ''medium'' then Some (JSNumber 2)
      else if k = ''low'' then Some (JSNumber 3)
      else if k \<in> set Object_prototype_keys then Some JSObject
      else None)"

definition order_or_4 :: "string \<Rightarrow> js_value" where
  "order_or_4 k = (case order k of None \<Rightarrow> JSNumber 4 | Some v \<Rightarrow> v)"

text \<open>
  Subtraction converts its operands to numbers; a function or an object converts to
  \<open>NaN\<close>, and so does every difference it takes part in. \<open>None\<close> is \<open>NaN\<close>.
\<close>

fun js_minus :: "js_value \<Rightarrow> js_value \<Rightarrow> int option" where
  "js_minus (JSNumber a) (JSNumber b) = Some (a - b)"
| "js_minus _ _ = None"

definition compareFn :: "'a bug_scheme \<Rightarrow> 'a bug_scheme \<Rightarrow> int option" where
  "compareFn a b = js_minus (order_or_4 (severity a)) (order_or_4 (severity b))"

text \<open>
  \<open>Array.prototype.sort\<close> calls the comparator through the language's \<open>SortCompare\<close>,
  which reads a \<open>NaN\<close> result as \<open>+0\<close>, and since ECMAScript 2019 the sort is stable. For
  a consistent comparator the stable sorted arrangement is unique, so one stable
  algorithm models every engine: insertion from the right, an element going before the
  first one it does not exceed. For a comparator that is not consistent the language
  leaves the arrangement to the engine, and the model gives one admissible answer:
  engines arrange some such inputs differently, so the model is used there only on an
  input where every adjacent pair compares as equal and the engine leaves the array as
  it is.
\<close>

definition SortCompare :: "('a \<Rightarrow> 'a \<Rightarrow> int option) \<Rightarrow> 'a \<Rightarrow> 'a \<Rightarrow> int" where
  "SortCompare comparefn x y = (case comparefn x y of None \<Rightarrow> 0 | Some v \<Rightarrow> v)"

fun sort_insert :: "('a \<Rightarrow> 'a \<Rightarrow> int option) \<Rightarrow> 'a \<Rightarrow> 'a list \<Rightarrow> 'a list" where
  "sort_insert comparefn x [] = [x]"
| "sort_insert comparefn x (y # ys) =
     (if SortCompare comparefn x y \<le> 0 then x # y # ys
      else y # sort_insert comparefn x ys)"

definition Array_sort :: "('a \<Rightarrow> 'a \<Rightarrow> int option) \<Rightarrow> 'a list \<Rightarrow> 'a list" where
  "Array_sort comparefn xs = foldr (sort_insert comparefn) xs []"

definition sortedBugs :: "test_results option \<Rightarrow> listed_bug list" where
  "sortedBugs res = Array_sort compareFn (allBugs res)"

text \<open>
  The order the specification gives to severities: the four enumerated values first, in
  their fixed order, every other string after them.
\<close>

definition severity_rank :: "string \<Rightarrow> nat" where
  "severity_rank s =
     (if s = ''critical'' then 0 else if s = ''high'' then 1 else if s = ''medium'' then 2
      else if s = ''low'' then 3 else 4)"

subsection \<open>Agent selection\<close>

definition initial_selectedAgents :: "string list" where
  "initial_selectedAgents = [''priya'']"

text \<open>The updater \<open>prev => prev.includes(id) ? prev.filter(p => p !== id) : [...prev, id]\<close>.\<close>

definition toggle :: "string \<Rightarrow> string list \<Rightarrow> string list" where
  "toggle i prev = (if i \<in> set prev then filter (\<lambda>p. p \<noteq> i) prev else prev @ [i])"

definition toggleAgent :: "string \<Rightarrow> dashboard \<Rightarrow> dashboard" where
  "toggleAgent i d = d\<lparr>selectedAgents := toggle i (selectedAgents d)\<rparr>"

text \<open>The button \<open>All\<close>: \<open>setSelectedAgents(AGENTS.map(a => a.id))\<close>.\<close>

definition select_all :: "dashboard \<Rightarrow> dashboard" where
  "select_all d = d\<lparr>selectedAgents := map agent_id AGENTS\<rparr>"

text \<open>
  \<open>setSelectedAgents\<close> has exactly three uses: the initial value, one button per catalog
  entry calling \<open>toggleAgent(a.id)\<close>, and the button \<open>All\<close>. The selections the page can
  reach are therefore these.
\<close>

inductive reachable_selection :: "string list \<Rightarrow> bool" where
  initial: "reachable_selection initial_selectedAgents"
| toggled: "reachable_selection s \<Longrightarrow> a \<in> set AGENTS \<Longrightarrow> reachable_selection (toggle (agent_id a) s)"
| all: "reachable_selection s \<Longrightarrow> reachable_selection (map agent_id AGENTS)"

definition selection_ok :: "string list \<Rightarrow> bool" where
  "selection_ok s = (distinct s \<and> set s \<subseteq> set (map agent_id AGENTS))"

subsection \<open>Starting a run: \<open>startTest\<close>\<close>

text \<open>
  A handler returns the new state and the requests it has issued, in order. The handler
  \<open>startTest\<close> is asynchronous: \<open>startTest\<close> below is its part up to the \<open>await\<close> of the
  start request, \<open>startTest_settled\<close> the part that runs once the request has settled.
\<close>

datatype effect =
    PostStart string "string list" string
  | ConnectWebSocket int
  | RefreshUsage
  | FetchResults int

definition startsWith :: "string \<Rightarrow> string \<Rightarrow> bool" where
  "startsWith s p = (take (length p) s = p)"

definition url_error :: string where
  "url_error = ''URL must start with http:// or https://''"

definition quota_error :: string where
  "quota_error = ''You've used all your free tests. Paid plans coming soon!''"

text \<open>\<open>usage && usage.tests_remaining <= 0\<close>: no usage record loaded means no denial.\<close>

definition no_tests_left :: "dashboard \<Rightarrow> bool" where
  "no_tests_left d = (case usage d of None \<Rightarrow> False | Some u \<Rightarrow> tests_remaining u \<le> 0)"

definition startTest :: "dashboard \<Rightarrow> dashboard \<times> effect list" where
  "startTest d =
     (if url d = [] \<or> length (selectedAgents d) = 0 then (d, [])
      else if \<not> startsWith (url d) ''http://'' \<and> \<not> startsWith (url d) ''https://''
        then (d\<lparr>error := url_error\<rparr>, [])
      else if no_tests_left d
        then (d\<lparr>error := quota_error\<rparr>, [])
      else
        (d\<lparr>isRunning := True, isCancelling := False, updates := [], fetched := None,
           error := [], activeTab := Overview\<rparr>,
         [PostStart (url d) (selectedAgents d)
            (case user d of None \<Rightarrow> ''anonymous'' | Some u \<Rightarrow> if u = [] then ''anonymous'' else u)]))"

text \<open>
  The start request settles with the new run's id, or fails with a message (a response
  that is not ok, or a network error). \<open>refreshUsage\<close> fetches the usage record only
  \<open>if (user?.id)\<close>.
\<close>

datatype start_outcome = Started int | StartFailed string

definition startTest_settled :: "start_outcome \<Rightarrow> dashboard \<Rightarrow> dashboard \<times> effect list" where
  "startTest_settled out d =
     (case out of
        Started i \<Rightarrow>
          (d\<lparr>testId := Some i\<rparr>,
           ConnectWebSocket i #
             (case user d of None \<Rightarrow> [] | Some u \<Rightarrow> if u = [] then [] else [RefreshUsage]))
      | StartFailed msg \<Rightarrow> (d\<lparr>error := msg, isRunning := False\<rparr>, []))"

text \<open>
  The button region: the Stop button while a run is in progress, otherwise the Start
  Test button with its \<open>disabled\<close> attribute.
\<close>

definition start_disabled :: "dashboard \<Rightarrow> bool" where
  "start_disabled d = (url d = [] \<or> length (selectedAgents d) = 0 \<or> no_tests_left d)"

datatype action_button = StopButton bool | StartButton bool

definition render_action_button :: "dashboard \<Rightarrow> action_button" where
  "render_action_button d =
     (if isRunning d then StopButton (isCancelling d) else StartButton (start_disabled d))"

subsection \<open>The event stream: \<open>ws.onmessage\<close>\<close>

text \<open>
  \<open>JSON.parse\<close> throws on a frame that is not JSON, and reading \<open>update.type\<close> throws when
  the frame is the JSON value \<open>null\<close>; either way the handler ends before any setter has
  run. Every other frame is an update, with or without a string \<open>type\<close>.
\<close>

datatype frame = NotJSON | JSONNull | Parsed update

definition control_types :: "string list" where
  "control_types = [''keepalive'', ''pong'', ''connected'']"

definition onmessage :: "int \<Rightarrow> frame \<Rightarrow> dashboard \<Rightarrow> dashboard \<times> effect list" where
  "onmessage i fr d =
     (case fr of
        NotJSON \<Rightarrow> (d, [])
      | JSONNull \<Rightarrow> (d, [])
      | Parsed u \<Rightarrow>
          if (case update_type u of None \<Rightarrow> False | Some ty \<Rightarrow> ty \<in> set control_types)
          then (d, [])
          else
            let d1 = d\<lparr>updates := updates d @ [u]\<rparr>;
                d2 = (if update_type u = Some ''test_completed''
                      then d1\<lparr>isRunning := False, isCancelling := False\<rparr> else d1);
                fx = (if update_type u = Some ''test_completed'' then [FetchResults i] else []);
                d3 = (if update_type u = Some ''test_cancelling''
                      then d2\<lparr>isCancelling := True\<rparr> else d2)
            in (d3, fx))"

subsection \<open>Fetching and rendering the result\<close>

datatype fetch_outcome = Fetched test_results | FetchFailed

definition fetchResults_settled :: "fetch_outcome \<Rightarrow> dashboard \<Rightarrow> dashboard" where
  "fetchResults_settled out d =
     (case out of
        Fetched t \<Rightarrow> d\<lparr>fetched := Some t\<rparr>
      | FetchFailed \<Rightarrow> d\<lparr>error := ''Failed to fetch results''\<rparr>)"

text \<open>
  The results block is rendered when \<open>results && stats\<close>. It shows the notice for a
  cancelled run, five cards (total, critical, high, medium, average score) and the
  count in the label of the tab \<open>All Issues\<close>.
\<close>

record results_block =
  stopped_early_notice :: bool
  total_card :: nat
  critical_card :: nat
  high_card :: nat
  medium_card :: nat
  avg_score_card :: rat
  all_issues_count :: nat

definition render_results :: "dashboard \<Rightarrow> results_block option" where
  "render_results d =
     (case fetched d of
        None \<Rightarrow> None
      | Some t \<Rightarrow>
          (case stats (fetched d) of
             None \<Rightarrow> None
           | Some st \<Rightarrow>
               Some \<lparr>stopped_early_notice = (status t = ''cancelled''),
                     total_card = total_bugs st,
                     critical_card = critical st,
                     high_card = high st,
                     medium_card = medium st,
                     avg_score_card = avg_score st,
                     all_issues_count = total_bugs st\<rparr>))"

subsection \<open>Vocabulary of the properties, and sample data\<close>

definition enumerated_severities :: "string list" where
  "enumerated_severities = [''critical'', ''high'', ''medium'', ''low'']"

text \<open>All bugs of a result list, in discovery order (agents in list order).\<close>

definition found_bugs :: "agent_result list \<Rightarrow> bug list" where
  "found_bugs rs = concat (map (\<lambda>r. case bugs_found r of None \<Rightarrow> [] | Some bs \<Rightarrow> bs) rs)"

definition sample_bug :: "string \<Rightarrow> string \<Rightarrow> bug" where
  "sample_bug t s =
     \<lparr>title = t, severity = s, description = [], impact = None, recommendation = None,
      found_by = None\<rparr>"

definition sample_results :: "agent_result list" where
  "sample_results =
     [\<lparr>persona = ''priya'', agent_status = ''completed'',
       bugs_found = Some [sample_bug ''Dead link'' ''low'', sample_bug ''Typo'' ''info'',
                          sample_bug ''Open redirect'' ''critical''],
       quality_score = Some 7, agent_summary = []\<rparr>,
      \<lparr>persona = ''alex'', agent_status = ''failed'', bugs_found = None,
       quality_score = None, agent_summary = []\<rparr>,
      \<lparr>persona = ''jake'', agent_status = ''completed'',
       bugs_found = Some [sample_bug ''Slow image'' ''low''],
       quality_score = Some 9, agent_summary = []\<rparr>]"

definition sample_snapshot :: test_results where
  "sample_snapshot =
     \<lparr>test_id = 1, test_url = ''https://example.com'', status = ''completed'', summary = None,
      results = Some sample_results\<rparr>"

text \<open>A snapshot in which one bug's severity is the name of a property of \<open>Object.prototype\<close>.\<close>

definition prototype_snapshot :: test_results where
  "prototype_snapshot =
     \<lparr>test_id = 2, test_url = ''https://example.com'', status = ''completed'', summary = None,
      results = Some
        [\<lparr>persona = ''priya'', agent_status = ''completed'',
          bugs_found = Some [sample_bug ''Dead link'' ''low'', sample_bug ''Odd'' ''constructor'',
                             sample_bug ''Open redirect'' ''critical''],
          quality_score = Some 5, agent_summary = []\<rparr>]\<rparr>"

text \<open>The state of the page after mounting: the initial values of its \<open>useState\<close> cells.\<close>

definition initial_dashboard :: "string option \<Rightarrow> dashboard" where
  "initial_dashboard u =
     \<lparr>user = u, url = [], selectedAgents = initial_selectedAgents, isRunning = False,
      isCancelling = False, testId = None, updates = [], fetched = None, error = [],
      activeTab = Overview, usage = None\<rparr>"

definition exhausted_usage :: usage_record where
  "exhausted_usage =
     \<lparr>tests_used = 3, tests_limit = 3, tests_remaining = 0, beta_active = True,
      beta_ends = ''2024-12-13''\<rparr>"

definition sample_update :: "string option \<Rightarrow> update" where
  "sample_update ty =
     \<lparr>update_type = ty, update_persona = None, thought = None, phase = None, update_bug = None,
      bugs_count = None, update_quality_score = None, message = None\<rparr>"

text \<open>
  The event types of the wire contract, as the specification lists them: a tagged union of
  eight. The page itself never tests a frame against this list.
\<close>

definition semantic_event_types :: "string list" where
  "semantic_event_types =
     [''persona_started'', ''phase'', ''action'', ''bug_found'', ''persona_completed'',
      ''test_cancelling'', ''test_completed'', ''test_failed'']"

section \<open>Properties\<close>

subsection \<open>Counting\<close>

lemma foldl_add_nat: "foldl (\<lambda>a r. a + f r) k rs = k + sum_list (map f rs)" for k :: nat
  by (induction rs arbitrary: k) simp_all

lemma stats_fallback:
  "summary t = None \<Longrightarrow> results t = Some rs \<Longrightarrow> stats (Some t) = Some (computed_stats rs)"
  by (simp add: stats_def)

lemma total_bugs_computed: "total_bugs (computed_stats rs) = sum_list (map bugs_length rs)"
  by (simp add: computed_stats_def foldl_add_nat)

lemma length_found_bugs: "length (found_bugs rs) = sum_list (map bugs_length rs)"
  by (induction rs) (simp_all add: found_bugs_def bugs_length_def split: option.splits)

lemma length_listed:
  "length (concat (map (\<lambda>r. map (with_agent (persona r))
      (case bugs_found r of None \<Rightarrow> [] | Some bs \<Rightarrow> bs)) rs)) = sum_list (map bugs_length rs)"
  by (induction rs) (simp_all add: bugs_length_def split: option.splits)

lemma length_allBugs:
  "results t = Some rs \<Longrightarrow> length (allBugs (Some t)) = sum_list (map bugs_length rs)"
  by (simp add: allBugs_def length_listed)

lemma severity_count_found:
  "length (filter (\<lambda>b. severity b = s) (found_bugs rs)) = sum_list (map (severity_length s) rs)"
  by (induction rs) (simp_all add: found_bugs_def severity_length_def split: option.splits)

lemma split_by_severity:
  "length (filter (\<lambda>b. severity b = ''critical'') bs) + length (filter (\<lambda>b. severity b = ''high'') bs)
   + length (filter (\<lambda>b. severity b = ''medium'') bs) + length (filter (\<lambda>b. severity b = ''low'') bs)
   + length (filter (\<lambda>b. severity b \<notin> set enumerated_severities) bs) = length bs"
  by (induction bs) (auto simp: enumerated_severities_def)

lemma buckets_computed:
  "critical (computed_stats rs) = length (filter (\<lambda>b. severity b = ''critical'') (found_bugs rs))"
  "high (computed_stats rs) = length (filter (\<lambda>b. severity b = ''high'') (found_bugs rs))"
  "medium (computed_stats rs) = length (filter (\<lambda>b. severity b = ''medium'') (found_bugs rs))"
  "low (computed_stats rs) = length (filter (\<lambda>b. severity b = ''low'') (found_bugs rs))"
  by (simp_all add: computed_stats_def foldl_add_nat severity_count_found)

lemma buckets_plus_others:
  "critical (computed_stats rs) + high (computed_stats rs) + medium (computed_stats rs)
   + low (computed_stats rs)
   + length (filter (\<lambda>b. severity b \<notin> set enumerated_severities) (found_bugs rs))
   = total_bugs (computed_stats rs)"
  by (simp only: buckets_computed total_bugs_computed split_by_severity length_found_bugs[symmetric])

lemma sample_stats:
  "total_bugs (computed_stats sample_results) = 4"
  "critical (computed_stats sample_results) = 1"
  "high (computed_stats sample_results) = 0"
  "medium (computed_stats sample_results) = 0"
  "low (computed_stats sample_results) = 2"
  by (simp_all add: computed_stats_def sample_results_def sample_bug_def bugs_length_def
        severity_length_def)

text \<open>
  C2. When the snapshot carries no summary of the server's, the aggregate the dashboard
  computes in its place has as \<open>total_bugs\<close> the sum, over the per-agent results, of the
  length of the agent's \<open>bugs_found\<close> list (an absent list counting as empty). It is also
  the number of entries of \<open>allBugs\<close>, the list behind the tab \<open>All Issues\<close>.
\<close>

theorem stats_total_bugs_is_sum:
  assumes "summary t = None" and "results t = Some rs"
  shows "\<exists>st. stats (Some t) = Some st
     \<and> total_bugs st = sum_list (map bugs_length rs)
     \<and> total_bugs st = length (allBugs (Some t))"
  using assms by (simp add: stats_fallback total_bugs_computed length_allBugs)

theorem stats_total_bugs_is_sum_witness:
  "summary sample_snapshot = None \<and> results sample_snapshot = Some sample_results
   \<and> (\<exists>st. stats (Some sample_snapshot) = Some st \<and> total_bugs st = 4
         \<and> sum_list (map bugs_length sample_results) = 4
         \<and> length (allBugs (Some sample_snapshot)) = 4)"
proof -
  have h: "summary sample_snapshot = None" "results sample_snapshot = Some sample_results"
    by (simp_all add: sample_snapshot_def)
  from stats_total_bugs_is_sum [OF h] obtain st where
    st: "stats (Some sample_snapshot) = Some st"
      "total_bugs st = sum_list (map bugs_length sample_results)"
      "total_bugs st = length (allBugs (Some sample_snapshot))"
    by blast
  have "st = computed_stats sample_results"
    using st(1) by (simp add: stats_fallback [OF h])
  then have "total_bugs st = 4"
    by (simp add: sample_stats)
  with st h show ?thesis by simp
qed

text \<open>
  C9. In the aggregate the dashboard computes, the four per-severity counts add up to at
  most \<open>total_bugs\<close>; they add up to exactly \<open>total_bugs\<close> if and only if every bug has
  one of the four enumerated severities; and the difference is the number of bugs with
  another severity string, each of which is counted in \<open>total_bugs\<close> and in no bucket.
\<close>

theorem severity_buckets_le_total:
  assumes "summary t = None" and "results t = Some rs"
  shows "\<exists>st. stats (Some t) = Some st
     \<and> critical st + high st + medium st + low st \<le> total_bugs st
     \<and> (critical st + high st + medium st + low st = total_bugs st
          \<longleftrightarrow> (\<forall>b \<in> set (found_bugs rs). severity b \<in> set enumerated_severities))
     \<and> total_bugs st = critical st + high st + medium st + low st
          + length (filter (\<lambda>b. severity b \<notin> set enumerated_severities) (found_bugs rs))"
proof -
  let ?st = "computed_stats rs"
  let ?others = "filter (\<lambda>b. severity b \<notin> set enumerated_severities) (found_bugs rs)"
  have total: "critical ?st + high ?st + medium ?st + low ?st + length ?others = total_bugs ?st"
    by (rule buckets_plus_others)
  have "(length ?others = 0) = (\<forall>b \<in> set (found_bugs rs). severity b \<in> set enumerated_severities)"
    by (simp add: filter_empty_conv)
  with total have "(critical ?st + high ?st + medium ?st + low ?st = total_bugs ?st)
      = (\<forall>b \<in> set (found_bugs rs). severity b \<in> set enumerated_severities)"
    by linarith
  with total assms show ?thesis
    by (simp add: stats_fallback)
qed

theorem severity_buckets_le_total_witness:
  "summary sample_snapshot = None \<and> results sample_snapshot = Some sample_results
   \<and> (\<exists>st. stats (Some sample_snapshot) = Some st
         \<and> critical st + high st + medium st + low st = 3 \<and> total_bugs st = 4
         \<and> length (filter (\<lambda>b. severity b \<notin> set enumerated_severities)
              (found_bugs sample_results)) = 1)"
proof -
  have h: "summary sample_snapshot = None" "results sample_snapshot = Some sample_results"
    by (simp_all add: sample_snapshot_def)
  from severity_buckets_le_total [OF h] obtain st where
    st: "stats (Some sample_snapshot) = Some st"
      "total_bugs st = critical st + high st + medium st + low st
          + length (filter (\<lambda>b. severity b \<notin> set enumerated_severities)
              (found_bugs sample_results))"
    by blast
  have "st = computed_stats sample_results"
    using st(1) by (simp add: stats_fallback [OF h])
  then have "total_bugs st = 4" "critical st + high st + medium st + low st = 3"
    by (simp_all add: sample_stats)
  with st h show ?thesis by simp
qed

subsection \<open>The severity sort\<close>

text \<open>
  As long as no severity string names a property of \<open>Object.prototype\<close>, the comparator
  is the difference of the ranks, the sort is the stable sort by rank, and the list of
  the tab \<open>All Issues\<close> is ordered by severity with ties in discovery order.
\<close>

lemma order_or_4_rank:
  "s \<notin> set Object_prototype_keys \<Longrightarrow> order_or_4 s = JSNumber (int (severity_rank s))"
  by (simp add: order_or_4_def order_def severity_rank_def)

lemma SortCompare_rank:
  "severity a \<notin> set Object_prototype_keys \<Longrightarrow> severity b \<notin> set Object_prototype_keys \<Longrightarrow>
   SortCompare compareFn a b = int (severity_rank (severity a)) - int (severity_rank (severity b))"
  by (simp add: SortCompare_def compareFn_def order_or_4_rank)

lemma sort_insert_insort_key:
  assumes "severity x \<notin> set Object_prototype_keys"
    and "\<forall>y \<in> set ys. severity y \<notin> set Object_prototype_keys"
  shows "sort_insert compareFn x ys = insort_key (\<lambda>b. severity_rank (severity b)) x ys"
  using assms by (induction ys) (simp_all add: SortCompare_rank)

lemma Array_sort_sort_key:
  assumes "\<forall>y \<in> set xs. severity y \<notin> set Object_prototype_keys"
  shows "Array_sort compareFn xs = sort_key (\<lambda>b. severity_rank (severity b)) xs"
  using assms
proof (induction xs)
  case Nil
  then show ?case by (simp add: Array_sort_def)
next
  case (Cons x xs)
  then have "Array_sort compareFn xs = sort_key (\<lambda>b. severity_rank (severity b)) xs"
    by simp
  moreover have "Array_sort compareFn (x # xs) = sort_insert compareFn x (Array_sort compareFn xs)"
    by (simp add: Array_sort_def)
  ultimately show ?case
    using Cons.prems by (simp add: sort_insert_insort_key)
qed

lemma same_severity_same_rank:
  "filter (\<lambda>b. severity b = s) xs
   = filter (\<lambda>b. severity b = s) (filter (\<lambda>b. severity_rank (severity b) = severity_rank s) xs)"
  by (induction xs) auto

lemma sortedBugs_ordered_stable:
  assumes "\<forall>b \<in> set (allBugs res). severity b \<notin> set Object_prototype_keys"
  shows "sorted (map (\<lambda>b. severity_rank (severity b)) (sortedBugs res))
    \<and> mset (sortedBugs res) = mset (allBugs res)
    \<and> (\<forall>s. filter (\<lambda>b. severity b = s) (sortedBugs res)
            = filter (\<lambda>b. severity b = s) (allBugs res))"
proof -
  let ?key = "\<lambda>b :: listed_bug. severity_rank (severity b)"
  have eq: "sortedBugs res = sort_key ?key (allBugs res)"
    using assms by (simp add: sortedBugs_def Array_sort_sort_key)
  have "filter (\<lambda>b. severity b = s) (sortedBugs res) = filter (\<lambda>b. severity b = s) (allBugs res)" for s
  proof -
    have "filter (\<lambda>b. severity b = s) (sortedBugs res)
        = filter (\<lambda>b. severity b = s) (filter (\<lambda>b. ?key b = severity_rank s) (sort_key ?key (allBugs res)))"
      unfolding eq by (rule same_severity_same_rank)
    also have "\<dots> = filter (\<lambda>b. severity b = s) (filter (\<lambda>b. ?key b = severity_rank s) (allBugs res))"
      by (simp only: sort_key_stable)
    also have "\<dots> = filter (\<lambda>b. severity b = s) (allBugs res)"
      by (rule same_severity_same_rank [symmetric])
    finally show ?thesis .
  qed
  then show ?thesis
    by (simp add: eq)
qed

text \<open>
  C1. The claim: for every snapshot, \<open>sortedBugs\<close> has every critical bug before every high
  one, every high before every medium, every medium before every low, ties in discovery
  order. On the snapshot below it fails. One agent reports, in this order, a low bug, a
  bug whose severity string is \<open>constructor\<close>, and a critical bug. \<open>order["constructor"]\<close>
  is the function \<open>Object\<close>, inherited from the prototype, so \<open>?? 4\<close> does not apply, the
  comparator returns \<open>NaN\<close> against either neighbour, the sort reads that as equal, and
  the list stays as it was: the low bug is shown before the critical one.
\<close>

theorem sortedBugs_inherited_key_unsorted:
  "map severity (allBugs (Some prototype_snapshot)) = [''low'', ''constructor'', ''critical'']
   \<and> map (\<lambda>b. compareFn b (allBugs (Some prototype_snapshot) ! 1)) (allBugs (Some prototype_snapshot))
       = [None, None, None]
   \<and> map severity (sortedBugs (Some prototype_snapshot)) = [''low'', ''constructor'', ''critical'']
   \<and> severity_rank ''critical'' < severity_rank ''low''"
  by (simp add: sortedBugs_def allBugs_def prototype_snapshot_def sample_bug_def with_agent_def
        Array_sort_def SortCompare_def compareFn_def order_or_4_def order_def severity_rank_def
        Object_prototype_keys_def bug.defs listed_bug.defs)

subsection \<open>Admission: \<open>startTest\<close>\<close>

lemma startTest_cases:
  "startTest d =
     (if url d = [] \<or> selectedAgents d = [] then (d, [])
      else if \<not> startsWith (url d) ''http://'' \<and> \<not> startsWith (url d) ''https://''
        then (d\<lparr>error := url_error\<rparr>, [])
      else if no_tests_left d then (d\<lparr>error := quota_error\<rparr>, [])
      else (fst (startTest d), snd (startTest d)))"
  by (simp add: startTest_def)

text \<open>
  C3, as amended. When the URL is empty, or no agent is selected, or the URL starts with
  neither \<open>http://\<close> nor \<open>https://\<close>, \<open>startTest\<close> issues no request and changes no state
  cell other than the error message. With an empty URL or an empty selection it changes
  nothing at all, the error message included; with a non-empty URL and a non-empty
  selection it sets the error message about the URL.
\<close>

theorem startTest_rejects_invalid_input:
  assumes "url d = [] \<or> selectedAgents d = []
     \<or> (\<not> startsWith (url d) ''http://'' \<and> \<not> startsWith (url d) ''https://'')"
  shows "snd (startTest d) = []
     \<and> (\<exists>e. fst (startTest d) = d\<lparr>error := e\<rparr>)
     \<and> (url d = [] \<or> selectedAgents d = [] \<longrightarrow> startTest d = (d, []))
     \<and> (url d \<noteq> [] \<and> selectedAgents d \<noteq> [] \<longrightarrow> fst (startTest d) = d\<lparr>error := url_error\<rparr>)"
proof (cases "url d = [] \<or> selectedAgents d = []")
  case True
  then have "startTest d = (d, [])"
    by (subst startTest_cases) simp
  moreover have "d = d\<lparr>error := error d\<rparr>" by simp
  ultimately show ?thesis using True by (metis fst_conv snd_conv)
next
  case False
  with assms have "startTest d = (d\<lparr>error := url_error\<rparr>, [])"
    by (subst startTest_cases) auto
  then show ?thesis using False by auto
qed

theorem startTest_rejects_invalid_input_witness:
  "(url (initial_dashboard None) = []
    \<and> startTest (initial_dashboard None) = (initial_dashboard None, []))
   \<and> (\<not> startsWith ''example.com'' ''http://'' \<and> \<not> startsWith ''example.com'' ''https://''
      \<and> startTest ((initial_dashboard None)\<lparr>url := ''example.com''\<rparr>)
          = ((initial_dashboard None)\<lparr>url := ''example.com'', error := url_error\<rparr>, []))"
proof -
  let ?d = "initial_dashboard None"
  let ?e = "?d\<lparr>url := ''example.com''\<rparr>"
  have h1: "url ?d = [] \<or> selectedAgents ?d = []
     \<or> (\<not> startsWith (url ?d) ''http://'' \<and> \<not> startsWith (url ?d) ''https://'')"
    by (simp add: initial_dashboard_def)
  have h2: "url ?e = [] \<or> selectedAgents ?e = []
     \<or> (\<not> startsWith (url ?e) ''http://'' \<and> \<not> startsWith (url ?e) ''https://'')"
    by (simp add: startsWith_def)
  have e: "url ?e \<noteq> [] \<and> selectedAgents ?e \<noteq> []"
    by (simp add: initial_dashboard_def initial_selectedAgents_def)
  from startTest_rejects_invalid_input [OF h1] have "startTest ?d = (?d, [])"
    by (simp add: initial_dashboard_def)
  moreover from startTest_rejects_invalid_input [OF h2] e
  have "startTest ?e = (?e\<lparr>error := url_error\<rparr>, [])"
    by (simp add: prod_eq_iff)
  ultimately show ?thesis
    by (simp add: startsWith_def initial_dashboard_def)
qed

text \<open>
  The claim as written fails: a URL that starts with neither prefix does not always get
  an error message. With the empty URL, and with the URL \<open>example.com\<close> and no agent
  selected, \<open>startTest\<close> returns at its first guard and the error message stays empty.
\<close>

theorem startTest_silent_on_empty_url:
  "\<not> startsWith (url (initial_dashboard None)) ''http://''
   \<and> \<not> startsWith (url (initial_dashboard None)) ''https://''
   \<and> startTest (initial_dashboard None) = (initial_dashboard None, [])
   \<and> error (fst (startTest (initial_dashboard None))) = []
   \<and> \<not> startsWith ''example.com'' ''http://'' \<and> \<not> startsWith ''example.com'' ''https://''
   \<and> startTest ((initial_dashboard None)\<lparr>url := ''example.com'', selectedAgents := []\<rparr>)
       = ((initial_dashboard None)\<lparr>url := ''example.com'', selectedAgents := []\<rparr>, [])
   \<and> error (fst (startTest ((initial_dashboard None)\<lparr>url := ''example.com'', selectedAgents := []\<rparr>)))
       = []"
  by (simp add: startTest_def initial_dashboard_def startsWith_def initial_selectedAgents_def)

text \<open>
  C4, as amended. Whenever the loaded usage record has \<open>tests_remaining \<le> 0\<close>, \<open>startTest\<close>
  issues no request, changes no state cell other than the error message (so the usage
  record is untouched), and the Start Test button is disabled. With an empty URL or an
  empty selection it returns silently, the state as it was. With both non-empty it sets
  an error message: the message about the URL when the URL has neither prefix, the
  message about the exhausted tests when it has one.
\<close>

theorem startTest_denies_without_quota:
  assumes "usage d = Some u" and "tests_remaining u \<le> 0"
  shows "snd (startTest d) = []
     \<and> (\<exists>e. fst (startTest d) = d\<lparr>error := e\<rparr>)
     \<and> usage (fst (startTest d)) = usage d
     \<and> start_disabled d
     \<and> render_action_button d \<noteq> StartButton False
     \<and> (url d = [] \<or> selectedAgents d = [] \<longrightarrow> startTest d = (d, []))
     \<and> (url d \<noteq> [] \<and> selectedAgents d \<noteq> []
          \<and> \<not> startsWith (url d) ''http://'' \<and> \<not> startsWith (url d) ''https://''
          \<longrightarrow> startTest d = (d\<lparr>error := url_error\<rparr>, []))
     \<and> (url d \<noteq> [] \<and> selectedAgents d \<noteq> []
          \<and> (startsWith (url d) ''http://'' \<or> startsWith (url d) ''https://'')
          \<longrightarrow> startTest d = (d\<lparr>error := quota_error\<rparr>, []))
     \<and> url_error \<noteq> [] \<and> quota_error \<noteq> [] \<and> url_error \<noteq> quota_error"
proof -
  have ntl: "no_tests_left d"
    using assms by (simp add: no_tests_left_def)
  have disabled: "start_disabled d"
    using ntl by (simp add: start_disabled_def)
  then have button: "render_action_button d \<noteq> StartButton False"
    by (simp add: render_action_button_def)
  have msgs: "url_error \<noteq> [] \<and> quota_error \<noteq> [] \<and> url_error \<noteq> quota_error"
    by (simp add: url_error_def quota_error_def)
  show ?thesis
  proof (cases "url d = [] \<or> selectedAgents d = []")
    case True
    then have st: "startTest d = (d, [])"
      by (subst startTest_cases) simp
    moreover have "d = d\<lparr>error := error d\<rparr>" by simp
    ultimately have "snd (startTest d) = []" "\<exists>e. fst (startTest d) = d\<lparr>error := e\<rparr>"
      "usage (fst (startTest d)) = usage d"
      by (simp, metis fst_conv, simp)
    with True st disabled button msgs show ?thesis by blast
  next
    case False
    show ?thesis
    proof (cases "\<not> startsWith (url d) ''http://'' \<and> \<not> startsWith (url d) ''https://''")
      case True
      with False have "startTest d = (d\<lparr>error := url_error\<rparr>, [])"
        by (subst startTest_cases) simp
      with True False disabled button msgs show ?thesis by auto
    next
      case valid: False
      with False ntl have "startTest d = (d\<lparr>error := quota_error\<rparr>, [])"
        by (subst startTest_cases) auto
      with valid False disabled button msgs show ?thesis by auto
    qed
  qed
qed

theorem startTest_denies_without_quota_witness:
  "tests_remaining exhausted_usage \<le> 0
   \<and> startTest ((initial_dashboard None)\<lparr>url := ''https://example.com'', usage := Some exhausted_usage\<rparr>)
     = ((initial_dashboard None)\<lparr>url := ''https://example.com'', usage := Some exhausted_usage,
          error := quota_error\<rparr>, [])
   \<and> startTest ((initial_dashboard None)\<lparr>url := ''example.com'', usage := Some exhausted_usage\<rparr>)
     = ((initial_dashboard None)\<lparr>url := ''example.com'', usage := Some exhausted_usage,
          error := url_error\<rparr>, [])
   \<and> startTest ((initial_dashboard None)\<lparr>usage := Some exhausted_usage\<rparr>)
     = ((initial_dashboard None)\<lparr>usage := Some exhausted_usage\<rparr>, [])"
proof -
  let ?q = "(initial_dashboard None)\<lparr>url := ''https://example.com'', usage := Some exhausted_usage\<rparr>"
  let ?b = "(initial_dashboard None)\<lparr>url := ''example.com'', usage := Some exhausted_usage\<rparr>"
  let ?e = "(initial_dashboard None)\<lparr>usage := Some exhausted_usage\<rparr>"
  have r: "tests_remaining exhausted_usage \<le> 0"
    by (simp add: exhausted_usage_def)
  have uq: "usage ?q = Some exhausted_usage" and ub: "usage ?b = Some exhausted_usage"
    and ue: "usage ?e = Some exhausted_usage"
    by simp_all
  have q: "url ?q \<noteq> [] \<and> selectedAgents ?q \<noteq> []
      \<and> (startsWith (url ?q) ''http://'' \<or> startsWith (url ?q) ''https://'')"
    by (simp add: initial_dashboard_def initial_selectedAgents_def startsWith_def)
  have b: "url ?b \<noteq> [] \<and> selectedAgents ?b \<noteq> []
      \<and> \<not> startsWith (url ?b) ''http://'' \<and> \<not> startsWith (url ?b) ''https://''"
    by (simp add: initial_dashboard_def initial_selectedAgents_def startsWith_def)
  have e: "url ?e = [] \<or> selectedAgents ?e = []"
    by (simp add: initial_dashboard_def)
  from startTest_denies_without_quota [OF uq r] q
  have "startTest ?q = (?q\<lparr>error := quota_error\<rparr>, [])" by blast
  moreover from startTest_denies_without_quota [OF ub r] b
  have "startTest ?b = (?b\<lparr>error := url_error\<rparr>, [])" by blast
  moreover from startTest_denies_without_quota [OF ue r] e
  have "startTest ?e = (?e, [])" by blast
  ultimately show ?thesis using r by simp
qed

text \<open>
  The claim as written fails: with no tests left and the URL still empty, \<open>startTest\<close>
  returns at its first guard, before the check of the usage record, and sets no error
  message.
\<close>

theorem startTest_no_quota_message_on_empty_url:
  "usage ((initial_dashboard None)\<lparr>usage := Some exhausted_usage\<rparr>) = Some exhausted_usage
   \<and> tests_remaining exhausted_usage \<le> 0
   \<and> startTest ((initial_dashboard None)\<lparr>usage := Some exhausted_usage\<rparr>)
       = ((initial_dashboard None)\<lparr>usage := Some exhausted_usage\<rparr>, [])
   \<and> error (fst (startTest ((initial_dashboard None)\<lparr>usage := Some exhausted_usage\<rparr>))) = []"
  by (simp add: startTest_def initial_dashboard_def exhausted_usage_def)

subsection \<open>The event stream\<close>

text \<open>
  C5, as amended. A message whose parsed type is \<open>keepalive\<close>, \<open>pong\<close> or \<open>connected\<close> leaves
  the whole state as it was and triggers nothing. Every other parsed message is appended
  to the feed, whatever its type: one of the eight event types, any other string, or no
  string type at all. A frame that is not JSON, or is the JSON \<open>null\<close>, changes nothing.
\<close>

theorem onmessage_filters_control_frames:
  "(update_type u = Some ''keepalive'' \<or> update_type u = Some ''pong''
      \<or> update_type u = Some ''connected''
      \<longrightarrow> onmessage i (Parsed u) d = (d, []))
   \<and> (update_type u \<noteq> Some ''keepalive'' \<and> update_type u \<noteq> Some ''pong''
      \<and> update_type u \<noteq> Some ''connected''
      \<longrightarrow> updates (fst (onmessage i (Parsed u) d)) = updates d @ [u])
   \<and> onmessage i NotJSON d = (d, [])
   \<and> onmessage i JSONNull d = (d, [])
   \<and> (updates (fst (onmessage i fr d)) \<noteq> updates d
      \<longrightarrow> (\<exists>v. fr = Parsed v \<and> updates (fst (onmessage i fr d)) = updates d @ [v]
            \<and> update_type v \<noteq> Some ''keepalive'' \<and> update_type v \<noteq> Some ''pong''
            \<and> update_type v \<noteq> Some ''connected''))"
proof -
  have control: "(case update_type v of None \<Rightarrow> False | Some ty \<Rightarrow> ty \<in> set control_types)
      = (update_type v = Some ''keepalive'' \<or> update_type v = Some ''pong''
          \<or> update_type v = Some ''connected'')" for v
    by (auto simp: control_types_def split: option.splits)
  have dropped: "onmessage i (Parsed v) d = (d, [])"
    if "update_type v = Some ''keepalive'' \<or> update_type v = Some ''pong''
      \<or> update_type v = Some ''connected''" for v
    using that by (simp add: onmessage_def control)
  have appended: "updates (fst (onmessage i (Parsed v) d)) = updates d @ [v]"
    if "update_type v \<noteq> Some ''keepalive'' \<and> update_type v \<noteq> Some ''pong''
      \<and> update_type v \<noteq> Some ''connected''" for v
    using that by (simp add: onmessage_def control Let_def)
  have silent: "onmessage i NotJSON d = (d, [])" "onmessage i JSONNull d = (d, [])"
    by (simp_all add: onmessage_def)
  have "\<exists>v. fr = Parsed v \<and> updates (fst (onmessage i fr d)) = updates d @ [v]
            \<and> update_type v \<noteq> Some ''keepalive'' \<and> update_type v \<noteq> Some ''pong''
            \<and> update_type v \<noteq> Some ''connected''"
    if ch: "updates (fst (onmessage i fr d)) \<noteq> updates d"
  proof (cases fr)
    case NotJSON
    with ch silent show ?thesis by simp
  next
    case JSONNull
    with ch silent show ?thesis by simp
  next
    case (Parsed v)
    with ch dropped [of v] have "update_type v \<noteq> Some ''keepalive'' \<and> update_type v \<noteq> Some ''pong''
      \<and> update_type v \<noteq> Some ''connected''"
      by auto
    with Parsed appended [of v] show ?thesis by simp
  qed
  with dropped [of u] appended [of u] silent show ?thesis by blast
qed

theorem onmessage_filters_control_frames_witness:
  "onmessage 7 (Parsed (sample_update (Some ''keepalive''))) (initial_dashboard None)
     = (initial_dashboard None, [])
   \<and> updates (fst (onmessage 7 (Parsed (sample_update (Some ''bug_found''))) (initial_dashboard None)))
     = [sample_update (Some ''bug_found'')]"
proof -
  let ?d = "initial_dashboard None"
  have k: "update_type (sample_update (Some ''keepalive'')) = Some ''keepalive''"
    by (simp add: sample_update_def)
  have b: "update_type (sample_update (Some ''bug_found'')) \<noteq> Some ''keepalive''
     \<and> update_type (sample_update (Some ''bug_found'')) \<noteq> Some ''pong''
     \<and> update_type (sample_update (Some ''bug_found'')) \<noteq> Some ''connected''"
    by (simp add: sample_update_def)
  from onmessage_filters_control_frames [of "sample_update (Some ''keepalive'')" 7 ?d NotJSON] k
  have "onmessage 7 (Parsed (sample_update (Some ''keepalive''))) ?d = (?d, [])"
    by blast
  moreover
  from onmessage_filters_control_frames [of "sample_update (Some ''bug_found'')" 7 ?d NotJSON] b
  have "updates (fst (onmessage 7 (Parsed (sample_update (Some ''bug_found''))) ?d))
      = updates ?d @ [sample_update (Some ''bug_found'')]"
    by blast
  ultimately show ?thesis by (simp add: initial_dashboard_def)
qed

text \<open>
  The claim as written fails in its last clause: the feed is not limited to the event
  types of the wire contract. A frame of type \<open>garbage\<close>, a frame of type \<open>Keepalive\<close> with
  a capital letter, and a frame with no type at all are each appended.
\<close>

theorem onmessage_appends_unknown_types:
  "''garbage'' \<notin> set semantic_event_types
   \<and> updates (fst (onmessage 7 (Parsed (sample_update (Some ''garbage''))) (initial_dashboard None)))
       = [sample_update (Some ''garbage'')]
   \<and> ''Keepalive'' \<notin> set semantic_event_types
   \<and> updates (fst (onmessage 7 (Parsed (sample_update (Some ''Keepalive''))) (initial_dashboard None)))
       = [sample_update (Some ''Keepalive'')]
   \<and> updates (fst (onmessage 7 (Parsed (sample_update None)) (initial_dashboard None)))
       = [sample_update None]"
  by (simp add: onmessage_def control_types_def sample_update_def initial_dashboard_def
      semantic_event_types_def Let_def)

subsection \<open>Cancelled runs\<close>

lemma sample_found_bugs:
  "map severity (found_bugs sample_results) = [''low'', ''info'', ''critical'', ''low'']"
  by (simp add: found_bugs_def sample_results_def sample_bug_def)

lemma sample_avg_score: "avg_score (computed_stats sample_results) = 53 / 10"
proof -
  have "\<lfloor>(323::rat) / 6\<rfloor> = 53"
    by (simp add: floor_eq_iff)
  then show ?thesis
    by (simp add: computed_stats_def sample_results_def score_or_zero_def Math_round_def)
qed

text \<open>
  C7. A snapshot with status \<open>cancelled\<close> is handled as a completed one. Storing it leaves
  the error message alone. Its aggregate is the aggregate of the same snapshot with
  status \<open>completed\<close>, and the results block is the same but for the notice. When the
  snapshot has no summary of the server's, the aggregate is computed over the partial
  per-agent results it carries: the total is the number of bugs found, each
  per-severity count the number of found bugs of that severity, and these are the
  numbers on the cards; when it has a summary, the cards show the summary. Two
  instances: a cancelled snapshot with no per-agent result is rendered with zeros, and
  the cancelled sample snapshot (three agents, four bugs) with its own counts and
  average.
\<close>

theorem cancelled_snapshot_same_stats:
  "stats (Some (t\<lparr>status := ''cancelled''\<rparr>)) = stats (Some (t\<lparr>status := ''completed''\<rparr>))
   \<and> render_results (d\<lparr>fetched := Some (t\<lparr>status := ''cancelled''\<rparr>)\<rparr>)
     = map_option (\<lambda>b. b\<lparr>stopped_early_notice := True\<rparr>)
         (render_results (d\<lparr>fetched := Some (t\<lparr>status := ''completed''\<rparr>)\<rparr>))
   \<and> error (fetchResults_settled (Fetched (t\<lparr>status := ''cancelled''\<rparr>)) d) = error d
   \<and> fetched (fetchResults_settled (Fetched (t\<lparr>status := ''cancelled''\<rparr>)) d)
     = Some (t\<lparr>status := ''cancelled''\<rparr>)
   \<and> (summary t = None \<and> results t = Some rs \<longrightarrow>
        (\<exists>st. stats (Some (t\<lparr>status := ''cancelled''\<rparr>)) = Some st
           \<and> total_bugs st = length (found_bugs rs)
           \<and> critical st = length (filter (\<lambda>b. severity b = ''critical'') (found_bugs rs))
           \<and> high st = length (filter (\<lambda>b. severity b = ''high'') (found_bugs rs))
           \<and> medium st = length (filter (\<lambda>b. severity b = ''medium'') (found_bugs rs))
           \<and> low st = length (filter (\<lambda>b. severity b = ''low'') (found_bugs rs))
           \<and> render_results (d\<lparr>fetched := Some (t\<lparr>status := ''cancelled''\<rparr>)\<rparr>)
             = Some \<lparr>stopped_early_notice = True,
                     total_card = length (found_bugs rs),
                     critical_card = length (filter (\<lambda>b. severity b = ''critical'') (found_bugs rs)),
                     high_card = length (filter (\<lambda>b. severity b = ''high'') (found_bugs rs)),
                     medium_card = length (filter (\<lambda>b. severity b = ''medium'') (found_bugs rs)),
                     avg_score_card = avg_score st,
                     all_issues_count = length (found_bugs rs)\<rparr>))
   \<and> (summary t = Some s \<longrightarrow>
        stats (Some (t\<lparr>status := ''cancelled''\<rparr>)) = Some s
        \<and> render_results (d\<lparr>fetched := Some (t\<lparr>status := ''cancelled''\<rparr>)\<rparr>)
          = Some \<lparr>stopped_early_notice = True, total_card = total_bugs s,
                  critical_card = critical s, high_card = high s, medium_card = medium s,
                  avg_score_card = avg_score s, all_issues_count = total_bugs s\<rparr>)
   \<and> render_results (d\<lparr>fetched := Some \<lparr>test_id = n, test_url = w, status = ''cancelled'',
        summary = None, results = Some []\<rparr>\<rparr>)
     = Some \<lparr>stopped_early_notice = True, total_card = 0, critical_card = 0, high_card = 0,
          medium_card = 0, avg_score_card = 0, all_issues_count = 0\<rparr>
   \<and> render_results (d\<lparr>fetched := Some (sample_snapshot\<lparr>status := ''cancelled''\<rparr>)\<rparr>)
     = Some \<lparr>stopped_early_notice = True, total_card = 4, critical_card = 1, high_card = 0,
          medium_card = 0, avg_score_card = 53 / 10, all_issues_count = 4\<rparr>"
proof -
  let ?c = "t\<lparr>status := ''cancelled''\<rparr>"
  have same: "stats (Some ?c) = stats (Some (t\<lparr>status := ''completed''\<rparr>))"
    by (simp add: stats_def split: option.splits)
  have block: "render_results (d\<lparr>fetched := Some ?c\<rparr>)
     = map_option (\<lambda>b. b\<lparr>stopped_early_notice := True\<rparr>)
         (render_results (d\<lparr>fetched := Some (t\<lparr>status := ''completed''\<rparr>)\<rparr>))"
    by (simp add: stats_def render_results_def split: option.splits)
  have fetch: "error (fetchResults_settled (Fetched ?c) d) = error d"
    "fetched (fetchResults_settled (Fetched ?c) d) = Some ?c"
    by (simp_all add: fetchResults_settled_def)
  have computed: "\<exists>st. stats (Some ?c) = Some st
           \<and> total_bugs st = length (found_bugs rs)
           \<and> critical st = length (filter (\<lambda>b. severity b = ''critical'') (found_bugs rs))
           \<and> high st = length (filter (\<lambda>b. severity b = ''high'') (found_bugs rs))
           \<and> medium st = length (filter (\<lambda>b. severity b = ''medium'') (found_bugs rs))
           \<and> low st = length (filter (\<lambda>b. severity b = ''low'') (found_bugs rs))
           \<and> render_results (d\<lparr>fetched := Some ?c\<rparr>)
             = Some \<lparr>stopped_early_notice = True,
                     total_card = length (found_bugs rs),
                     critical_card = length (filter (\<lambda>b. severity b = ''critical'') (found_bugs rs)),
                     high_card = length (filter (\<lambda>b. severity b = ''high'') (found_bugs rs)),
                     medium_card = length (filter (\<lambda>b. severity b = ''medium'') (found_bugs rs)),
                     avg_score_card = avg_score st,
                     all_issues_count = length (found_bugs rs)\<rparr>"
    if h: "summary t = None \<and> results t = Some rs"
  proof -
    from h have st: "stats (Some ?c) = Some (computed_stats rs)"
      by (simp add: stats_def)
    then have "render_results (d\<lparr>fetched := Some ?c\<rparr>)
        = Some \<lparr>stopped_early_notice = True,
                total_card = total_bugs (computed_stats rs),
                critical_card = critical (computed_stats rs),
                high_card = high (computed_stats rs),
                medium_card = medium (computed_stats rs),
                avg_score_card = avg_score (computed_stats rs),
                all_issues_count = total_bugs (computed_stats rs)\<rparr>"
      by (simp add: render_results_def)
    with st show ?thesis
      by (simp add: buckets_computed total_bugs_computed length_found_bugs)
  qed
  have served: "stats (Some ?c) = Some s
        \<and> render_results (d\<lparr>fetched := Some ?c\<rparr>)
          = Some \<lparr>stopped_early_notice = True, total_card = total_bugs s,
                  critical_card = critical s, high_card = high s, medium_card = medium s,
                  avg_score_card = avg_score s, all_issues_count = total_bugs s\<rparr>"
    if "summary t = Some s"
    using that by (simp add: stats_def render_results_def)
  have empty: "render_results (d\<lparr>fetched := Some \<lparr>test_id = n, test_url = w, status = ''cancelled'',
        summary = None, results = Some []\<rparr>\<rparr>)
     = Some \<lparr>stopped_early_notice = True, total_card = 0, critical_card = 0, high_card = 0,
          medium_card = 0, avg_score_card = 0, all_issues_count = 0\<rparr>"
    by (simp add: stats_def render_results_def computed_stats_def)
  have sample: "render_results (d\<lparr>fetched := Some (sample_snapshot\<lparr>status := ''cancelled''\<rparr>)\<rparr>)
     = Some \<lparr>stopped_early_notice = True, total_card = 4, critical_card = 1, high_card = 0,
          medium_card = 0, avg_score_card = 53 / 10, all_issues_count = 4\<rparr>"
    by (simp add: stats_def render_results_def sample_snapshot_def sample_stats sample_avg_score)
  from same block fetch computed served empty sample show ?thesis
    by blast
qed

theorem cancelled_snapshot_same_stats_witness:
  "summary sample_snapshot = None \<and> results sample_snapshot = Some sample_results
   \<and> length (found_bugs sample_results) = 4
   \<and> length (filter (\<lambda>b. severity b = ''critical'') (found_bugs sample_results)) = 1
   \<and> length (filter (\<lambda>b. severity b = ''low'') (found_bugs sample_results)) = 2
   \<and> (\<exists>st. stats (Some (sample_snapshot\<lparr>status := ''cancelled''\<rparr>)) = Some st
         \<and> total_bugs st = 4 \<and> critical st = 1 \<and> high st = 0 \<and> medium st = 0 \<and> low st = 2
         \<and> render_results ((initial_dashboard None)\<lparr>fetched := Some (sample_snapshot\<lparr>status := ''cancelled''\<rparr>)\<rparr>)
           = Some \<lparr>stopped_early_notice = True, total_card = 4, critical_card = 1, high_card = 0,
                medium_card = 0, avg_score_card = avg_score st, all_issues_count = 4\<rparr>)"
proof -
  have h: "summary sample_snapshot = None \<and> results sample_snapshot = Some sample_results"
    by (simp add: sample_snapshot_def)
  have counts: "length (found_bugs sample_results) = 4"
    "length (filter (\<lambda>b. severity b = ''critical'') (found_bugs sample_results)) = 1"
    "length (filter (\<lambda>b. severity b = ''high'') (found_bugs sample_results)) = 0"
    "length (filter (\<lambda>b. severity b = ''medium'') (found_bugs sample_results)) = 0"
    "length (filter (\<lambda>b. severity b = ''low'') (found_bugs sample_results)) = 2"
    by (simp_all add: found_bugs_def sample_results_def sample_bug_def)
  from cancelled_snapshot_same_stats [of sample_snapshot "initial_dashboard None" sample_results] h
  obtain st where st: "stats (Some (sample_snapshot\<lparr>status := ''cancelled''\<rparr>)) = Some st"
    "total_bugs st = length (found_bugs sample_results)"
    "critical st = length (filter (\<lambda>b. severity b = ''critical'') (found_bugs sample_results))"
    "high st = length (filter (\<lambda>b. severity b = ''high'') (found_bugs sample_results))"
    "medium st = length (filter (\<lambda>b. severity b = ''medium'') (found_bugs sample_results))"
    "low st = length (filter (\<lambda>b. severity b = ''low'') (found_bugs sample_results))"
    "render_results ((initial_dashboard None)\<lparr>fetched := Some (sample_snapshot\<lparr>status := ''cancelled''\<rparr>)\<rparr>)
       = Some \<lparr>stopped_early_notice = True,
               total_card = length (found_bugs sample_results),
               critical_card = length (filter (\<lambda>b. severity b = ''critical'') (found_bugs sample_results)),
               high_card = length (filter (\<lambda>b. severity b = ''high'') (found_bugs sample_results)),
               medium_card = length (filter (\<lambda>b. severity b = ''medium'') (found_bugs sample_results)),
               avg_score_card = avg_score st,
               all_issues_count = length (found_bugs sample_results)\<rparr>"
    by blast
  then have "stats (Some (sample_snapshot\<lparr>status := ''cancelled''\<rparr>)) = Some st
         \<and> total_bugs st = 4 \<and> critical st = 1 \<and> high st = 0 \<and> medium st = 0 \<and> low st = 2
         \<and> render_results ((initial_dashboard None)\<lparr>fetched := Some (sample_snapshot\<lparr>status := ''cancelled''\<rparr>)\<rparr>)
           = Some \<lparr>stopped_early_notice = True, total_card = 4, critical_card = 1, high_card = 0,
                medium_card = 0, avg_score_card = avg_score st, all_issues_count = 4\<rparr>"
    by (simp only: counts)
  then show ?thesis
    using h counts by blast
qed

subsection \<open>The selection of agents\<close>

lemma catalog_ids: "map agent_id AGENTS = [''jake'', ''grandma'', ''alex'', ''priya'', ''marcus'']"
  by (simp add: AGENTS_def)

lemma toggle_ok:
  assumes "selection_ok s" and "i \<in> set (map agent_id AGENTS)"
  shows "selection_ok (toggle i s)"
  using assms by (auto simp: selection_ok_def toggle_def)

lemma reachable_ok: "reachable_selection s \<Longrightarrow> selection_ok s"
proof (induction rule: reachable_selection.induct)
  case initial
  show ?case by (simp add: selection_ok_def initial_selectedAgents_def catalog_ids)
next
  case (toggled s a)
  then show ?case by (simp add: toggle_ok)
next
  case (all s)
  show ?case by (simp add: selection_ok_def catalog_ids)
qed

text \<open>
  C8. The catalog has the five ids. A selection is in order when it has no duplicates and
  all its elements are catalog ids. The initial selection is in order; a click on an
  agent's button keeps a selection in order; the button \<open>All\<close> sets the selection to the
  catalog, which is in order; hence every selection the page can reach is in order.
\<close>

theorem selectedAgents_invariant:
  "map agent_id AGENTS = [''jake'', ''grandma'', ''alex'', ''priya'', ''marcus'']
   \<and> selection_ok initial_selectedAgents
   \<and> (selection_ok (selectedAgents d) \<and> a \<in> set AGENTS
        \<longrightarrow> selection_ok (selectedAgents (toggleAgent (agent_id a) d)))
   \<and> selectedAgents (select_all d) = map agent_id AGENTS
   \<and> selection_ok (selectedAgents (select_all d))
   \<and> (reachable_selection s \<longrightarrow> distinct s \<and> set s \<subseteq> set (map agent_id AGENTS))"
proof -
  have "selection_ok initial_selectedAgents"
    by (rule reachable_ok) (rule reachable_selection.initial)
  moreover have "selection_ok (selectedAgents (toggleAgent (agent_id a) d))"
    if "selection_ok (selectedAgents d)" "a \<in> set AGENTS"
    using that by (simp add: toggleAgent_def toggle_ok)
  moreover have "selection_ok (selectedAgents (select_all d))"
    by (simp add: select_all_def selection_ok_def catalog_ids)
  moreover have "distinct s \<and> set s \<subseteq> set (map agent_id AGENTS)" if "reachable_selection s"
    using reachable_ok [OF that] by (simp add: selection_ok_def)
  ultimately show ?thesis
    by (simp add: catalog_ids select_all_def)
qed

theorem selectedAgents_invariant_witness:
  "selection_ok (selectedAgents (initial_dashboard None))
   \<and> hd AGENTS \<in> set AGENTS
   \<and> selectedAgents (toggleAgent (agent_id (hd AGENTS)) (initial_dashboard None))
       = [''priya'', ''jake'']
   \<and> selection_ok [''priya'', ''jake'']
   \<and> reachable_selection [''priya'', ''jake'']
   \<and> distinct [''priya'', ''jake'']"
proof -
  let ?d = "initial_dashboard None"
  let ?s = "[''priya'', ''jake'']"
  have sel: "selectedAgents ?d = initial_selectedAgents"
    by (simp add: initial_dashboard_def)
  have mem: "hd AGENTS \<in> set AGENTS"
    by (simp add: AGENTS_def)
  have tog: "selectedAgents (toggleAgent (agent_id (hd AGENTS)) ?d) = ?s"
    by (simp add: toggleAgent_def toggle_def initial_dashboard_def initial_selectedAgents_def
        AGENTS_def)
  have "reachable_selection (toggle (agent_id (hd AGENTS)) initial_selectedAgents)"
    by (rule reachable_selection.toggled [OF reachable_selection.initial mem])
  then have reach: "reachable_selection ?s"
    using tog by (simp add: toggleAgent_def sel)
  note inv = selectedAgents_invariant [of ?d "hd AGENTS" ?s]
  from inv sel have "selection_ok (selectedAgents ?d)" by simp
  moreover from inv this mem tog have "selection_ok ?s" by simp
  moreover from inv reach have "distinct ?s" by blast
  ultimately show ?thesis using mem tog reach by simp
qed

text \<open>
  C10, as amended. Toggling the same id twice on a duplicate-free selection gives a
  duplicate-free selection with the same members. It is the original list when the id
  was not selected; when the id was selected, it is the original list with the id moved
  to the end.
\<close>

theorem toggle_twice:
  assumes "distinct s"
  shows "toggle i (toggle i s) = (if i \<in> set s then filter (\<lambda>p. p \<noteq> i) s @ [i] else s)
     \<and> set (toggle i (toggle i s)) = set s
     \<and> distinct (toggle i (toggle i s))
     \<and> (i \<notin> set s \<longrightarrow> toggle i (toggle i s) = s)"
proof -
  have eq: "toggle i (toggle i s) = (if i \<in> set s then filter (\<lambda>p. p \<noteq> i) s @ [i] else s)"
    by (auto simp: toggle_def filter_id_conv)
  have "set (filter (\<lambda>p. p \<noteq> i) s @ [i]) = set s" if "i \<in> set s"
    using that by auto
  moreover have "distinct (filter (\<lambda>p. p \<noteq> i) s @ [i])"
    using assms by simp
  ultimately show ?thesis
    using assms by (simp add: eq)
qed

theorem toggle_twice_witness:
  "distinct [''priya'', ''alex'']
   \<and> toggle ''jake'' (toggle ''jake'' [''priya'', ''alex'']) = [''priya'', ''alex'']
   \<and> toggle ''priya'' (toggle ''priya'' [''priya'', ''alex'']) = [''alex'', ''priya'']"
proof -
  have h: "distinct [''priya'', ''alex'']" by simp
  from toggle_twice [OF h, of "''jake''"] toggle_twice [OF h, of "''priya''"] h
  show ?thesis by simp
qed

text \<open>
  The claim as written fails: toggling a selected id twice moves it to the end of the
  list, and the list is what the start request sends as \<open>personas\<close>.
\<close>

theorem toggle_twice_reorders:
  "distinct [''jake'', ''priya'']
   \<and> toggle ''jake'' (toggle ''jake'' [''jake'', ''priya'']) = [''priya'', ''jake'']
   \<and> toggle ''jake'' (toggle ''jake'' [''jake'', ''priya'']) \<noteq> [''jake'', ''priya'']"
  by (simp add: toggle_def)

end
